theory Spec2Isabelle
  imports Main "HOL-Library.Word"
begin

section \<open>Wide strings\<close>

text \<open>
  The runner is a Windows program: \<^verbatim>\<open>wchar_t\<close> is a 16-bit code unit and
  \<^verbatim>\<open>std::wstring\<close> a sequence of them. A wide literal \<^verbatim>\<open>L"..."\<close> of ASCII
  characters widens each character to its code.
\<close>

type_synonym wchar_t = "16 word"
type_synonym wstring = "wchar_t list"

definition L :: "string \<Rightarrow> wstring" where
  "L s = map of_char s"

text \<open>
  \<^verbatim>\<open>std::wstring::find(wchar_t)\<close>: the index of the first occurrence of the
  character; \<^verbatim>\<open>npos\<close> is \<open>None\<close>.
\<close>

fun find_w :: "wstring \<Rightarrow> wchar_t \<Rightarrow> nat option" where
  "find_w [] c = None"
| "find_w (x # xs) c = (if x = c then Some 0 else map_option Suc (find_w xs c))"

text \<open>
  \<^verbatim>\<open>std::wstring::substr(pos, count)\<close>: throws \<^verbatim>\<open>std::out_of_range\<close> when
  \<open>pos\<close> is beyond the end, and otherwise returns at most \<open>count\<close> characters
  from \<open>pos\<close> on.
\<close>

datatype exn = out_of_range

definition substr :: "wstring \<Rightarrow> nat \<Rightarrow> nat \<Rightarrow> exn + wstring" where
  "substr s pos count =
     (if pos > length s then Inl out_of_range else Inr (take count (drop pos s)))"

section \<open>Title resolution (main.cpp, lines 36 to 56)\<close>

text \<open>
  \<^verbatim>\<open>_wdupenv_s(&configEnv, &len, L"APP_CONFIG")\<close> returns an error code and
  stores a buffer pointer: the null pointer (\<open>None\<close>) when the variable is not set,
  otherwise the value, which the model holds as the characters before the terminator.
\<close>

type_synonym dupenv = "int \<times> wstring option"

definition resolveTitle :: "dupenv \<Rightarrow> exn + wstring" where
  "resolveTitle env =
     (let windowTitle = L ''EUR/USD Chart Viewer'' in
      case env of (rc, configEnv) \<Rightarrow>
        if rc = 0 \<and> configEnv \<noteq> None then
          (let configStr = the configEnv in
           case find_w configStr (of_char CHR '','') of
             Some separatorPos \<Rightarrow>
               (case substr configStr 0 separatorPos of
                  Inl e \<Rightarrow> Inl e
                | Inr titleKey \<Rightarrow>
                    if titleKey = L ''EURUSD-m5'' then Inr (L ''EUR/USD-5m'')
                    else if titleKey = L ''EURUSD-m30'' then Inr (L ''EUR/USD-30m'')
                    else if titleKey = L ''EURUSD-h4'' then Inr (L ''EUR/USD-4h'')
                    else Inr titleKey)
           | None \<Rightarrow> Inr windowTitle)
        else Inr windowTitle)"

section \<open>The entry routine (main.cpp, lines 12 to 71)\<close>

text \<open>
  What the platform answers to the routine's calls: whether the parent console could be
  attached, whether a debugger is present, the command line arguments, the outcome of
  reading \<^verbatim>\<open>APP_CONFIG\<close>, whether the window could be created, and the answer
  of the \<open>n\<close>-th \<^verbatim>\<open>GetMessage\<close> call (its return value and the message it
  stores). \<^verbatim>\<open>GetMessage\<close> returns zero for the quit message, and a non-zero value
  otherwise, \<open>-1\<close> for an error included.
\<close>

record 'msg platform =
  AttachConsole :: bool
  IsDebuggerPresent :: bool
  GetCommandLineArguments :: "string list"
  wdupenv_s :: dupenv
  Create_result :: bool
  GetMessage :: "nat \<Rightarrow> int \<times> 'msg"

text \<open>
  \<^verbatim>\<open>Win32Window::Point\<close> and \<^verbatim>\<open>Win32Window::Size\<close> hold two unsigned
  integers each.
\<close>

datatype Point = Point nat nat
datatype Size = Size nat nat

text \<open>
  The calls of the routine that act on the platform, in the order it makes them. The
  constructions of the project and of the window object, the release of the buffer of
  \<^verbatim>\<open>_wdupenv_s\<close> and the destructors that run at a return are not recorded.
\<close>

datatype 'msg call =
    CreateAndAttachConsole
  | CoInitializeEx
  | set_dart_entrypoint_arguments "string list"
  | Create wstring Point Size
  | SetQuitOnClose bool
  | GetMessage_call int
  | TranslateMessage 'msg
  | DispatchMessage 'msg
  | CoUninitialize

fun is_Create :: "'msg call \<Rightarrow> bool" where
  "is_Create (Create title origin sz) = True"
| "is_Create c = False"

fun is_GetMessage :: "'msg call \<Rightarrow> bool" where
  "is_GetMessage (GetMessage_call r) = True"
| "is_GetMessage c = False"

text \<open>The exit statuses of \<^verbatim>\<open>stdlib.h\<close>.\<close>

definition EXIT_SUCCESS :: int where
  "EXIT_SUCCESS = 0"

definition EXIT_FAILURE :: int where
  "EXIT_FAILURE = 1"

text \<open>
  How a run ends: the routine returns an exit status, an exception leaves it, or it is
  still in the message loop when the observation stops.
\<close>

datatype outcome = Returned int | Uncaught exn | Running

text \<open>
  The message loop of lines 63 to 67. It runs for as long as \<^verbatim>\<open>GetMessage\<close>
  answers a non-zero value, which may be forever: \<open>fuel\<close> bounds the number of
  \<^verbatim>\<open>GetMessage\<close> calls observed. The result is the calls made so far and whether
  the loop has ended.
\<close>

fun message_loop ::
  "nat \<Rightarrow> (nat \<Rightarrow> int \<times> 'msg) \<Rightarrow> nat \<Rightarrow> 'msg call list \<Rightarrow> 'msg call list \<times> bool" where
  "message_loop 0 gm n tr = (tr, False)"
| "message_loop (Suc fuel) gm n tr =
     (case gm n of (r, msg) \<Rightarrow>
        if r \<noteq> 0 then
          message_loop fuel gm (Suc n)
            (tr @ [GetMessage_call r, TranslateMessage msg, DispatchMessage msg])
        else (tr @ [GetMessage_call r], True))"

text \<open>Lines 16 to 18: a console is created only when none could be attached and a
  debugger is present.\<close>

definition console :: "'msg platform \<Rightarrow> 'msg call list" where
  "console p =
     (if \<not> AttachConsole p \<and> IsDebuggerPresent p then [CreateAndAttachConsole] else [])"

text \<open>
  \<^verbatim>\<open>wWinMain\<close>: the calls made and how the run ends, observed for at most
  \<open>fuel\<close> calls of \<^verbatim>\<open>GetMessage\<close>.
\<close>

definition wWinMain :: "nat \<Rightarrow> 'msg platform \<Rightarrow> 'msg call list \<times> outcome" where
  "wWinMain fuel p =
     (let tr = console p @ [CoInitializeEx];
          command_line_arguments = GetCommandLineArguments p;
          tr = tr @ [set_dart_entrypoint_arguments command_line_arguments];
          origin = Point 10 10;
          size = Size 1280 720
      in case resolveTitle (wdupenv_s p) of
           Inl e \<Rightarrow> (tr, Uncaught e)
         | Inr windowTitle \<Rightarrow>
             (let tr = tr @ [Create windowTitle origin size] in
              if \<not> Create_result p then (tr, Returned EXIT_FAILURE)
              else
                (case message_loop fuel (GetMessage p) 0 (tr @ [SetQuitOnClose True]) of
                   (tr, False) \<Rightarrow> (tr, Running)
                 | (tr, True) \<Rightarrow> (tr @ [CoUninitialize], Returned EXIT_SUCCESS))))"

section \<open>Notions used to state the properties\<close>

text \<open>The separator, and the field of a configuration value before its first separator.\<close>

definition comma :: wchar_t where
  "comma = of_char CHR '',''"

definition first_field :: "wstring \<Rightarrow> wstring" where
  "first_field s = takeWhile (\<lambda>c. c \<noteq> comma) s"

text \<open>Two keys that differ, and only in the case of their ASCII letters.\<close>

definition ascii_lower :: "wchar_t \<Rightarrow> wchar_t" where
  "ascii_lower c = (if 65 \<le> c \<and> c \<le> 90 then c + 32 else c)"

definition differs_only_in_case :: "wstring \<Rightarrow> wstring \<Rightarrow> bool" where
  "differs_only_in_case a b \<longleftrightarrow> a \<noteq> b \<and> map ascii_lower a = map ascii_lower b"

text \<open>
  A platform to run the routine on: no console to attach, a debugger present, the key
  \<open>EURUSD-h4\<close> configured, a window that can be created, and two messages before
  the quit message.
\<close>

definition quit_after_two :: "nat platform" where
  "quit_after_two =
     \<lparr>AttachConsole = False, IsDebuggerPresent = True, GetCommandLineArguments = [],
      wdupenv_s = (0, Some (L ''EURUSD-h4,x'')), Create_result = True,
      GetMessage = (\<lambda>n. if n < 2 then (1, n) else (0, 18))\<rparr>"

section \<open>Facts about the string operations\<close>

lemma find_first: "c \<notin> set k \<Longrightarrow> find_w (k @ c # s) c = Some (length k)"
  by (induction k) auto

lemma find_absent: "c \<notin> set s \<Longrightarrow> find_w s c = None"
  by (induction s) auto

lemma substr_0: "substr s 0 n = Inr (take n s)"
  by (simp add: substr_def)

lemma comma_code: "comma = 44"
  by (simp add: comma_def)

lemma split_at_first_comma:
  assumes "comma \<in> set s"
  shows "\<exists>rest. s = first_field s @ comma # rest"
proof -
  let ?d = "dropWhile (\<lambda>c. c \<noteq> comma) s"
  from assms have "?d \<noteq> []"
    by (simp add: dropWhile_eq_Nil_conv)
  then obtain c rest where d: "?d = c # rest"
    by (cases ?d) auto
  then have "c = comma"
    using hd_dropWhile [of "\<lambda>c. c \<noteq> comma" s] by simp
  with d have "s = first_field s @ comma # rest"
    using takeWhile_dropWhile_id [of "\<lambda>c. c \<noteq> comma" s]
    by (simp add: first_field_def)
  then show ?thesis ..
qed

lemma first_field_no_comma: "comma \<notin> set (first_field s)"
  by (auto simp add: first_field_def dest: set_takeWhileD)

section \<open>Title resolution\<close>

text \<open>The key before the first separator goes through the chain of comparisons.\<close>

lemma resolveTitle_key:
  assumes "comma \<notin> set k"
  shows "resolveTitle (0, Some (k @ comma # s)) =
    Inr (if k = L ''EURUSD-m5'' then L ''EUR/USD-5m''
         else if k = L ''EURUSD-m30'' then L ''EUR/USD-30m''
         else if k = L ''EURUSD-h4'' then L ''EUR/USD-4h''
         else k)"
  using assms by (simp add: resolveTitle_def comma_code find_first substr_0 Let_def)

lemma resolveTitle_default:
  "rc \<noteq> 0 \<or> cfg = None \<or> comma \<notin> set (the cfg) \<Longrightarrow>
     resolveTitle (rc, cfg) = Inr (L ''EUR/USD Chart Viewer'')"
  by (auto simp add: resolveTitle_def comma_code find_absent Let_def)

text \<open>No exception leaves the title resolution: \<open>substr\<close> is only called at position 0.\<close>

lemma resolveTitle_total: "\<exists>title. resolveTitle env = Inr title"
  by (cases env) (auto simp add: resolveTitle_def substr_0 Let_def split: option.splits)

lemma resolveTitle_first_field:
  assumes "comma \<in> set s"
  shows "resolveTitle (0, Some s) =
    Inr (if first_field s = L ''EURUSD-m5'' then L ''EUR/USD-5m''
         else if first_field s = L ''EURUSD-m30'' then L ''EUR/USD-30m''
         else if first_field s = L ''EURUSD-h4'' then L ''EUR/USD-4h''
         else first_field s)"
proof -
  define k where "k = first_field s"
  from assms obtain rest where "s = first_field s @ comma # rest"
    using split_at_first_comma by blast
  then have s: "s = k @ comma # rest"
    by (simp add: k_def)
  have "comma \<notin> set k"
    by (simp add: k_def first_field_no_comma)
  then have "resolveTitle (0, Some (k @ comma # rest)) =
    Inr (if k = L ''EURUSD-m5'' then L ''EUR/USD-5m''
         else if k = L ''EURUSD-m30'' then L ''EUR/USD-30m''
         else if k = L ''EURUSD-h4'' then L ''EUR/USD-4h''
         else k)"
    by (rule resolveTitle_key)
  with s have "resolveTitle (0, Some s) =
    Inr (if k = L ''EURUSD-m5'' then L ''EUR/USD-5m''
         else if k = L ''EURUSD-m30'' then L ''EUR/USD-30m''
         else if k = L ''EURUSD-h4'' then L ''EUR/USD-4h''
         else k)"
    by simp
  then show ?thesis
    unfolding k_def .
qed

text \<open>
  C1. Whatever follows the separator, the three recognized keys resolve through the fixed
  table: \<open>EURUSD-m5\<close> to \<open>EUR/USD-5m\<close>, \<open>EURUSD-m30\<close> to \<open>EUR/USD-30m\<close> and
  \<open>EURUSD-h4\<close> to \<open>EUR/USD-4h\<close>.
\<close>

theorem recognized_keys:
  "resolveTitle (0, Some (L ''EURUSD-m5,'' @ suffix)) = Inr (L ''EUR/USD-5m'') \<and>
   resolveTitle (0, Some (L ''EURUSD-m30,'' @ suffix)) = Inr (L ''EUR/USD-30m'') \<and>
   resolveTitle (0, Some (L ''EURUSD-h4,'' @ suffix)) = Inr (L ''EUR/USD-4h'')"
  by (simp add: resolveTitle_def L_def substr_def)

text \<open>
  C2. When the variable is absent, or present without a separator, the title is the
  default \<open>EUR/USD Chart Viewer\<close>.
\<close>

theorem default_title:
  "resolveTitle (rc, None) = Inr (L ''EUR/USD Chart Viewer'') \<and>
   (comma \<notin> set s \<longrightarrow> resolveTitle (rc, Some s) = Inr (L ''EUR/USD Chart Viewer''))"
  by (simp add: resolveTitle_default)

theorem default_title_witness:
  "comma \<notin> set (L ''nocomma'') \<and>
   resolveTitle (0, Some (L ''nocomma'')) = Inr (L ''EUR/USD Chart Viewer'')"
  using default_title [of 0 "L ''nocomma''"] by (simp add: comma_def L_def)

text \<open>
  C3. A key before the separator that is none of the three recognized literals is the
  title, unchanged; so \<open>FOO,bar\<close> resolves to \<open>FOO\<close>.
\<close>

theorem unknown_key_verbatim:
  assumes "comma \<notin> set key"
    and "key \<noteq> L ''EURUSD-m5''" and "key \<noteq> L ''EURUSD-m30''" and "key \<noteq> L ''EURUSD-h4''"
  shows "resolveTitle (0, Some (key @ comma # suffix)) = Inr key"
  using assms by (simp add: resolveTitle_key)

theorem unknown_key_verbatim_witness:
  "comma \<notin> set (L ''FOO'') \<and> L ''FOO'' \<noteq> L ''EURUSD-m5'' \<and> L ''FOO'' \<noteq> L ''EURUSD-m30'' \<and>
   L ''FOO'' \<noteq> L ''EURUSD-h4'' \<and> resolveTitle (0, Some (L ''FOO,bar'')) = Inr (L ''FOO'')"
  using unknown_key_verbatim [of "L ''FOO''" "L ''bar''"] by (simp add: comma_def L_def)

text \<open>
  C9. A configuration value that begins with the separator resolves to the empty title,
  not to the default one.
\<close>

theorem empty_key:
  "resolveTitle (0, Some (L '','' @ rest)) = Inr [] \<and>
   resolveTitle (0, Some (L '','' @ rest)) \<noteq> Inr (L ''EUR/USD Chart Viewer'')"
  by (simp add: resolveTitle_def L_def substr_def)

lemma ascii_lower_comma: "ascii_lower c = 44 \<longleftrightarrow> c = 44"
  by (auto simp add: ascii_lower_def)

text \<open>
  C10. The comparison with the table is exact: a key that differs from a recognized literal
  only in the case of its letters, such as \<open>eurusd-m5\<close>, is itself the title, and
  is not what the literal resolves to.
\<close>

theorem case_sensitive_keys:
  assumes "lit \<in> {L ''EURUSD-m5'', L ''EURUSD-m30'', L ''EURUSD-h4''}"
    and "differs_only_in_case key lit"
  shows "resolveTitle (0, Some (key @ comma # suffix)) = Inr key \<and>
         resolveTitle (0, Some (lit @ comma # suffix)) \<noteq> Inr key"
proof -
  from assms(2) have ne: "key \<noteq> lit" and low: "map ascii_lower key = map ascii_lower lit"
    by (simp_all add: differs_only_in_case_def)
  have lit_no_comma: "comma \<notin> set lit"
    using assms(1) by (auto simp add: L_def comma_code)
  have "comma \<notin> ascii_lower ` set lit"
    using assms(1) by (auto simp add: L_def comma_code ascii_lower_def)
  then have "comma \<notin> set (map ascii_lower key)"
    by (simp add: low)
  then have key_no_comma: "comma \<notin> set key"
    using ascii_lower_comma by (force simp add: comma_code)
  have unknown: "key \<noteq> L ''EURUSD-m5''" "key \<noteq> L ''EURUSD-m30''" "key \<noteq> L ''EURUSD-h4''"
    using assms(1) ne low by (auto simp add: L_def ascii_lower_def)
  have verbatim: "resolveTitle (0, Some (key @ comma # suffix)) = Inr key"
    using key_no_comma unknown by (simp add: resolveTitle_key)
  have len: "length key = length lit"
    using low by (rule map_eq_imp_length_eq)
  have "resolveTitle (0, Some (lit @ comma # suffix)) \<noteq> Inr key"
    using assms(1) len lit_no_comma by (auto simp add: resolveTitle_key L_def)
  with verbatim show ?thesis ..
qed

theorem case_sensitive_keys_witness:
  "L ''EURUSD-m5'' \<in> {L ''EURUSD-m5'', L ''EURUSD-m30'', L ''EURUSD-h4''} \<and>
   differs_only_in_case (L ''eurusd-m5'') (L ''EURUSD-m5'') \<and>
   resolveTitle (0, Some (L ''eurusd-m5,x'')) = Inr (L ''eurusd-m5'') \<and>
   resolveTitle (0, Some (L ''EURUSD-m5,x'')) \<noteq> Inr (L ''eurusd-m5'')"
  using case_sensitive_keys [of "L ''EURUSD-m5''" "L ''eurusd-m5''" "L ''x''"]
  by (simp add: L_def comma_def differs_only_in_case_def ascii_lower_def)

section \<open>The message loop\<close>

lemma message_loop_Create:
  "filter is_Create (fst (message_loop fuel gm n tr)) = filter is_Create tr"
  by (induction fuel arbitrary: n tr) (auto split: prod.splits)

lemma message_loop_CoUninitialize:
  "CoUninitialize \<in> set (fst (message_loop fuel gm n tr)) \<longleftrightarrow> CoUninitialize \<in> set tr"
  by (induction fuel arbitrary: n tr) (auto split: prod.splits)

lemma message_loop_more_fuel:
  "message_loop fuel gm n tr = (tr', True) \<Longrightarrow> message_loop (fuel + d) gm n tr = (tr', True)"
  by (induction fuel arbitrary: n tr) (auto split: prod.splits if_splits)

lemma message_loop_ends_on_quit:
  "message_loop fuel gm n tr = (tr', True) \<Longrightarrow> \<exists>tr''. tr' = tr @ tr'' @ [GetMessage_call 0]"
proof (induction fuel arbitrary: n tr)
  case 0
  then show ?case by simp
next
  case (Suc fuel)
  obtain r msg where g: "gm n = (r, msg)" by (cases "gm n")
  show ?case
  proof (cases "r = 0")
    case True
    with Suc.prems g show ?thesis by auto
  next
    case False
    with Suc.prems g
    have "message_loop fuel gm (Suc n)
            (tr @ [GetMessage_call r, TranslateMessage msg, DispatchMessage msg]) = (tr', True)"
      by simp
    from Suc.IH [OF this] show ?thesis by auto
  qed
qed

lemma message_loop_reaches_quit:
  "fst (gm (n + k)) = 0 \<Longrightarrow> \<exists>tr'. message_loop (Suc k) gm n tr = (tr', True)"
proof (induction k arbitrary: n tr)
  case 0
  then show ?case by (cases "gm n") auto
next
  case (Suc k)
  obtain r msg where g: "gm n = (r, msg)" by (cases "gm n")
  show ?case
  proof (cases "r = 0")
    case True
    with g show ?thesis by simp
  next
    case False
    from Suc.prems have "fst (gm (Suc n + k)) = 0" by simp
    from Suc.IH [OF this] False g show ?thesis by simp
  qed
qed

lemma message_loop_quit:
  assumes "fst (gm k) = 0"
  shows "\<exists>tr'. \<forall>fuel>k. message_loop fuel gm 0 tr = (tr @ tr' @ [GetMessage_call 0], True)"
proof -
  from assms obtain t where t: "message_loop (Suc k) gm 0 tr = (t, True)"
    using message_loop_reaches_quit [of gm 0 k tr] by auto
  then obtain tr' where tr': "t = tr @ tr' @ [GetMessage_call 0]"
    using message_loop_ends_on_quit by blast
  have "message_loop fuel gm 0 tr = (t, True)" if "fuel > k" for fuel
  proof -
    from that have "fuel = Suc k + (fuel - Suc k)" by simp
    then show ?thesis
      using message_loop_more_fuel [OF t, of "fuel - Suc k"] by simp
  qed
  with tr' show ?thesis by auto
qed

section \<open>The entry routine\<close>

lemma wWinMain_failure:
  assumes "resolveTitle (wdupenv_s p) = Inr title" and "\<not> Create_result p"
  shows "wWinMain fuel p =
    (console p @ [CoInitializeEx, set_dart_entrypoint_arguments (GetCommandLineArguments p),
       Create title (Point 10 10) (Size 1280 720)], Returned EXIT_FAILURE)"
  using assms by (simp add: wWinMain_def Let_def)

lemma wWinMain_success:
  assumes "resolveTitle (wdupenv_s p) = Inr title" and "Create_result p"
    and "message_loop fuel (GetMessage p) 0
           (console p @ [CoInitializeEx, set_dart_entrypoint_arguments (GetCommandLineArguments p),
              Create title (Point 10 10) (Size 1280 720), SetQuitOnClose True]) = (tr, ended)"
  shows "wWinMain fuel p =
    (if ended then (tr @ [CoUninitialize], Returned EXIT_SUCCESS) else (tr, Running))"
  using assms by (simp add: wWinMain_def Let_def)


lemma wWinMain_same_title:
  assumes "resolveTitle e = resolveTitle e'"
  shows "wWinMain fuel (p\<lparr>wdupenv_s := e\<rparr>) = wWinMain fuel (p\<lparr>wdupenv_s := e'\<rparr>)"
  by (cases "resolveTitle e'") (simp_all add: assms wWinMain_def console_def Let_def)

text \<open>
  C4. Two configuration values that both contain a separator and agree on the field before
  the first one resolve to the same title, and the routine runs the same on both.
\<close>

theorem title_depends_on_first_field:
  assumes "comma \<in> set a" and "comma \<in> set b" and "first_field a = first_field b"
  shows "resolveTitle (rc, Some a) = resolveTitle (rc, Some b) \<and>
         wWinMain fuel (p\<lparr>wdupenv_s := (rc, Some a)\<rparr>) = wWinMain fuel (p\<lparr>wdupenv_s := (rc, Some b)\<rparr>)"
proof -
  have eq: "resolveTitle (rc, Some a) = resolveTitle (rc, Some b)"
  proof (cases "rc = 0")
    case True
    with assms show ?thesis by (simp add: resolveTitle_first_field)
  next
    case False
    then show ?thesis by (simp add: resolveTitle_default)
  qed
  show ?thesis
    by (rule conjI [OF eq wWinMain_same_title [OF eq]])
qed

theorem title_depends_on_first_field_witness:
  "comma \<in> set (L ''FOO,bar'') \<and> comma \<in> set (L ''FOO,qux,zz'') \<and>
   first_field (L ''FOO,bar'') = first_field (L ''FOO,qux,zz'') \<and>
   resolveTitle (0, Some (L ''FOO,bar'')) = resolveTitle (0, Some (L ''FOO,qux,zz'')) \<and>
   wWinMain 3 (quit_after_two\<lparr>wdupenv_s := (0, Some (L ''FOO,bar''))\<rparr>) =
   wWinMain 3 (quit_after_two\<lparr>wdupenv_s := (0, Some (L ''FOO,qux,zz''))\<rparr>)"
  using title_depends_on_first_field [of "L ''FOO,bar''" "L ''FOO,qux,zz''" 0 3 quit_after_two]
  by (simp add: comma_def L_def first_field_def)

text \<open>
  C7. Whatever the outcome of reading the configuration variable, and however long the run
  is observed, the routine creates a window exactly once, with the resolved title, the
  origin (10, 10) and the size (1280, 720).
\<close>

theorem window_geometry_fixed:
  "\<exists>title. resolveTitle env = Inr title \<and>
     filter is_Create (fst (wWinMain fuel (p\<lparr>wdupenv_s := env\<rparr>))) =
       [Create title (Point 10 10) (Size 1280 720)]"
proof -
  let ?p = "p\<lparr>wdupenv_s := env\<rparr>"
  obtain title where t: "resolveTitle (wdupenv_s ?p) = Inr title"
    using resolveTitle_total by blast
  have "filter is_Create (fst (wWinMain fuel ?p)) = [Create title (Point 10 10) (Size 1280 720)]"
  proof (cases "Create_result ?p")
    case False
    then show ?thesis
      by (simp add: wWinMain_failure [OF t] console_def)
  next
    case True
    obtain tr ended where m: "message_loop fuel (GetMessage ?p) 0
           (console ?p @ [CoInitializeEx, set_dart_entrypoint_arguments (GetCommandLineArguments ?p),
              Create title (Point 10 10) (Size 1280 720), SetQuitOnClose True]) = (tr, ended)"
      by (cases "message_loop fuel (GetMessage ?p) 0
           (console ?p @ [CoInitializeEx, set_dart_entrypoint_arguments (GetCommandLineArguments ?p),
              Create title (Point 10 10) (Size 1280 720), SetQuitOnClose True])")
    have "filter is_Create tr = [Create title (Point 10 10) (Size 1280 720)]"
      using message_loop_Create [of fuel "GetMessage ?p" 0
           "console ?p @ [CoInitializeEx, set_dart_entrypoint_arguments (GetCommandLineArguments ?p),
              Create title (Point 10 10) (Size 1280 720), SetQuitOnClose True]"]
      unfolding m by (simp add: console_def)
    then show ?thesis
      by (simp add: wWinMain_success [OF t True m])
  qed
  with t show ?thesis by auto
qed

text \<open>
  The run on the normal path: once \<^verbatim>\<open>GetMessage\<close> has answered the quit
  message, the routine calls \<^verbatim>\<open>CoUninitialize\<close>, for the first time, and
  returns the success status.
\<close>

lemma wWinMain_quit:
  assumes "Create_result p" and "fst (GetMessage p n) = 0"
  shows "\<exists>tr. (\<forall>fuel>n. wWinMain fuel p =
            (tr @ [GetMessage_call 0, CoUninitialize], Returned EXIT_SUCCESS)) \<and>
          CoUninitialize \<notin> set tr"
proof -
  obtain title where t: "resolveTitle (wdupenv_s p) = Inr title"
    using resolveTitle_total by blast
  let ?tr = "console p @
    [CoInitializeEx, set_dart_entrypoint_arguments (GetCommandLineArguments p),
     Create title (Point 10 10) (Size 1280 720), SetQuitOnClose True]"
  from assms(2) obtain tr' where
    m: "\<forall>fuel>n. message_loop fuel (GetMessage p) 0 ?tr = (?tr @ tr' @ [GetMessage_call 0], True)"
    using message_loop_quit [of "GetMessage p" n ?tr] by blast
  have run: "wWinMain fuel p =
      ((?tr @ tr') @ [GetMessage_call 0, CoUninitialize], Returned EXIT_SUCCESS)"
    if "fuel > n" for fuel
  proof -
    from m that
    have "message_loop fuel (GetMessage p) 0 ?tr = (?tr @ tr' @ [GetMessage_call 0], True)"
      by blast
    from wWinMain_success [OF t assms(1) this] show ?thesis by simp
  qed
  have "CoUninitialize \<notin> set (?tr @ tr' @ [GetMessage_call 0])"
    using m [rule_format, of "Suc n"]
      message_loop_CoUninitialize [of "Suc n" "GetMessage p" 0 ?tr]
    by (simp add: console_def)
  then have "CoUninitialize \<notin> set (?tr @ tr')"
    by simp
  with run show ?thesis
    by blast
qed


text \<open>
  C5. When the window cannot be created, the routine returns the failure status, which is
  not zero, right after the creation call and without a single \<^verbatim>\<open>GetMessage\<close>
  call, however long the run is observed. When the window is created, the failure status is
  never returned.
\<close>

theorem creation_failure_exits:
  "(\<not> Create_result p \<longrightarrow>
      (\<exists>tr title. wWinMain fuel p =
          (tr @ [Create title (Point 10 10) (Size 1280 720)], Returned EXIT_FAILURE) \<and>
        filter is_GetMessage tr = []) \<and>
      EXIT_FAILURE \<noteq> 0) \<and>
   (Create_result p \<longrightarrow> snd (wWinMain fuel p) \<noteq> Returned EXIT_FAILURE)"
proof (cases "Create_result p")
  case False
  obtain title where t: "resolveTitle (wdupenv_s p) = Inr title"
    using resolveTitle_total by blast
  let ?tr = "console p @
    [CoInitializeEx, set_dart_entrypoint_arguments (GetCommandLineArguments p)]"
  have "wWinMain fuel p =
      (?tr @ [Create title (Point 10 10) (Size 1280 720)], Returned EXIT_FAILURE)"
    by (simp add: wWinMain_failure [OF t False])
  moreover have "filter is_GetMessage ?tr = []"
    by (simp add: console_def)
  ultimately show ?thesis
    using False by (auto simp add: EXIT_FAILURE_def)
next
  case True
  obtain title where t: "resolveTitle (wdupenv_s p) = Inr title"
    using resolveTitle_total by blast
  obtain tr ended where m: "message_loop fuel (GetMessage p) 0
      (console p @ [CoInitializeEx, set_dart_entrypoint_arguments (GetCommandLineArguments p),
         Create title (Point 10 10) (Size 1280 720), SetQuitOnClose True]) = (tr, ended)"
    by (cases "message_loop fuel (GetMessage p) 0
      (console p @ [CoInitializeEx, set_dart_entrypoint_arguments (GetCommandLineArguments p),
         Create title (Point 10 10) (Size 1280 720), SetQuitOnClose True])")
  show ?thesis
    using True by (simp add: wWinMain_success [OF t True m] EXIT_SUCCESS_def EXIT_FAILURE_def)
qed

theorem creation_failure_exits_witness:
  "\<not> Create_result (quit_after_two\<lparr>Create_result := False\<rparr>) \<and>
   wWinMain 5 (quit_after_two\<lparr>Create_result := False\<rparr>) =
     ([CreateAndAttachConsole, CoInitializeEx, set_dart_entrypoint_arguments [],
       Create (L ''EUR/USD-4h'') (Point 10 10) (Size 1280 720)], Returned EXIT_FAILURE) \<and>
   Create_result quit_after_two \<and>
   snd (wWinMain 5 quit_after_two) \<noteq> Returned EXIT_FAILURE"
  using creation_failure_exits [of "quit_after_two\<lparr>Create_result := False\<rparr>" 5]
    creation_failure_exits [of quit_after_two 5]
  by (simp add: quit_after_two_def wWinMain_def console_def resolveTitle_def substr_def L_def)



text \<open>
  C8. When the window is created and some \<^verbatim>\<open>GetMessage\<close> call answers the quit
  message, the routine returns once the run is observed long enough: after the quit answer
  it calls \<^verbatim>\<open>CoUninitialize\<close>, for the first time, and returns the success
  status, which is 0.
\<close>

theorem normal_exit:
  assumes "Create_result p" and "fst (GetMessage p n) = 0"
  shows "\<exists>tr. (\<forall>fuel>n. wWinMain fuel p =
            (tr @ [GetMessage_call 0, CoUninitialize], Returned EXIT_SUCCESS)) \<and>
          CoUninitialize \<notin> set tr \<and> EXIT_SUCCESS = 0"
  using wWinMain_quit [OF assms] by (simp add: EXIT_SUCCESS_def)

theorem normal_exit_witness:
  "Create_result quit_after_two \<and> fst (GetMessage quit_after_two 2) = 0 \<and>
   (\<exists>tr. (\<forall>fuel>2. wWinMain fuel quit_after_two =
            (tr @ [GetMessage_call 0, CoUninitialize], Returned EXIT_SUCCESS)) \<and>
          CoUninitialize \<notin> set tr \<and> EXIT_SUCCESS = 0)"
  using normal_exit [of quit_after_two 2] by (simp add: quit_after_two_def)

end
